theory Spec2Isabelle
  imports Complex_Main "HOL-Library.Product_Lexorder" "HOL-Library.Sublist" "HOL-Library.Multiset"
begin

section \<open>Python strings\<close>

text \<open>
  A Python \<open>str\<close> is modelled as a \<open>string\<close> whose characters are the code points
  0 to 255. The character classes below are the ones Python uses for these code points
  (\<open>str.isspace\<close>, and \<open>\s\<close>, \<open>\d\<close>, \<open>\w\<close> of the \<open>re\<close> module on \<open>str\<close> patterns).
  Floats are modelled as reals.
\<close>

definition isspace :: "char \<Rightarrow> bool" where
  "isspace c = (let n = (of_char c :: nat) in
     (9 \<le> n \<and> n \<le> 13) \<or> (28 \<le> n \<and> n \<le> 32) \<or> n = 133 \<or> n = 160)"

definition isdigit :: "char \<Rightarrow> bool" where
  "isdigit c = (let n = (of_char c :: nat) in 48 \<le> n \<and> n \<le> 57)"

definition is_AZ :: "char \<Rightarrow> bool" where
  "is_AZ c = (let n = (of_char c :: nat) in 65 \<le> n \<and> n \<le> 90)"

definition is_az :: "char \<Rightarrow> bool" where
  "is_az c = (let n = (of_char c :: nat) in 97 \<le> n \<and> n \<le> 122)"

definition isword :: "char \<Rightarrow> bool" where
  "isword c = (let n = (of_char c :: nat) in
     isdigit c \<or> is_AZ c \<or> is_az c \<or> n = 95 \<or> n = 170 \<or> n = 178 \<or> n = 179 \<or> n = 181
     \<or> n = 185 \<or> n = 186 \<or> (188 \<le> n \<and> n \<le> 190) \<or> (192 \<le> n \<and> n \<le> 214)
     \<or> (216 \<le> n \<and> n \<le> 246) \<or> 248 \<le> n)"

definition islower :: "char \<Rightarrow> bool" where
  "islower c = (let n = (of_char c :: nat) in
     is_az c \<or> n = 170 \<or> n = 181 \<or> n = 186 \<or> (223 \<le> n \<and> n \<le> 246) \<or> 248 \<le> n)"

definition lower_char :: "char \<Rightarrow> char" where
  "lower_char c = (let n = (of_char c :: nat) in
     if is_AZ c \<or> (192 \<le> n \<and> n \<le> 222 \<and> n \<noteq> 215) then char_of (n + 32) else c)"

text \<open>
  \<open>str.upper\<close> of the three lower-case code points 181, 223 and 255 leaves the range
  0 to 255; they are left unchanged here.
\<close>

definition upper_char :: "char \<Rightarrow> char" where
  "upper_char c = (let n = (of_char c :: nat) in
     if is_az c \<or> (224 \<le> n \<and> n \<le> 254 \<and> n \<noteq> 247) then char_of (n - 32) else c)"

definition lower :: "string \<Rightarrow> string" where
  "lower s = map lower_char s"

definition strip :: "string \<Rightarrow> string" where
  "strip s = rev (dropWhile isspace (rev (dropWhile isspace s)))"

text \<open>\<open>s.split()\<close>: the maximal runs of non-whitespace characters.\<close>

fun split_from :: "string \<Rightarrow> string \<Rightarrow> string list" where
  "split_from w [] = (if w = [] then [] else [w])"
| "split_from w (c # cs) =
     (if isspace c then (if w = [] then split_from [] cs else w # split_from [] cs)
      else split_from (w @ [c]) cs)"

definition str_split :: "string \<Rightarrow> string list" where
  "str_split s = split_from [] s"

text \<open>\<open>sep.join(parts)\<close>.\<close>

fun join :: "string \<Rightarrow> string list \<Rightarrow> string" where
  "join sep [] = []"
| "join sep [x] = x"
| "join sep (x # y # ys) = x @ sep @ join sep (y # ys)"

text \<open>\<open>sub in s\<close> on strings.\<close>

fun str_in :: "string \<Rightarrow> string \<Rightarrow> bool" where
  "str_in sub [] = (sub = [])"
| "str_in sub (c # cs) = (prefix sub (c # cs) \<or> str_in sub cs)"

section \<open>Regular expressions\<close>

text \<open>
  The patterns of the source are values of \<open>rx\<close>; \<open>re_match\<close> is \<open>re.match\<close> read as a
  truth value (some prefix of the text matches), by derivatives. Every pattern of the
  source that is used with \<open>re.match\<close> starts with \<open>^\<close>, which is implied there and
  is left out. \<open>Eos\<close> is \<open>$\<close>: the end of the text, or the position before a final
  newline. The flag of \<open>re_match\<close> is \<open>re.IGNORECASE\<close>.
\<close>

datatype rx = Null | Eps | Eos | Cls "char \<Rightarrow> bool" | Seq rx rx | Alt rx rx | Star rx

fun nullable :: "bool \<Rightarrow> rx \<Rightarrow> bool" where
  "nullable e Null = False"
| "nullable e Eps = True"
| "nullable e Eos = e"
| "nullable e (Cls p) = False"
| "nullable e (Seq r s) = (nullable e r \<and> nullable e s)"
| "nullable e (Alt r s) = (nullable e r \<or> nullable e s)"
| "nullable e (Star r) = True"

fun seq :: "rx \<Rightarrow> rx \<Rightarrow> rx" where
  "seq Null s = Null"
| "seq Eps s = s"
| "seq r Null = Null"
| "seq r s = Seq r s"

fun alt :: "rx \<Rightarrow> rx \<Rightarrow> rx" where
  "alt Null s = s"
| "alt r Null = r"
| "alt r s = Alt r s"

definition cls_ok :: "bool \<Rightarrow> (char \<Rightarrow> bool) \<Rightarrow> char \<Rightarrow> bool" where
  "cls_ok ic p c = (p c \<or> (ic \<and> (p (lower_char c) \<or> p (upper_char c))))"

fun deriv :: "bool \<Rightarrow> char \<Rightarrow> rx \<Rightarrow> rx" where
  "deriv ic c Null = Null"
| "deriv ic c Eps = Null"
| "deriv ic c Eos = Null"
| "deriv ic c (Cls p) = (if cls_ok ic p c then Eps else Null)"
| "deriv ic c (Seq r s) =
     (if nullable False r then alt (seq (deriv ic c r) s) (deriv ic c s)
      else seq (deriv ic c r) s)"
| "deriv ic c (Alt r s) = alt (deriv ic c r) (deriv ic c s)"
| "deriv ic c (Star r) = seq (deriv ic c r) (Star r)"

fun re_match :: "bool \<Rightarrow> rx \<Rightarrow> string \<Rightarrow> bool" where
  "re_match ic r [] = nullable True r"
| "re_match ic r (c # cs) =
     (nullable (cs = [] \<and> c = CHR 0x0A) r \<or> re_match ic (deriv ic c r) cs)"

text \<open>\<open>re.search\<close> as a truth value: a match starting at some position.\<close>

fun re_search :: "bool \<Rightarrow> rx \<Rightarrow> string \<Rightarrow> bool" where
  "re_search ic r [] = re_match ic r []"
| "re_search ic r (c # cs) = (re_match ic r (c # cs) \<or> re_search ic r cs)"

definition Plus :: "rx \<Rightarrow> rx" where
  "Plus r = Seq r (Star r)"

definition Opt :: "rx \<Rightarrow> rx" where
  "Opt r = Alt r Eps"

definition Chr :: "char \<Rightarrow> rx" where
  "Chr c = Cls (\<lambda>x. x = c)"

fun Lit :: "string \<Rightarrow> rx" where
  "Lit [] = Eps"
| "Lit (c # cs) = Seq (Chr c) (Lit cs)"

definition rx_d :: rx where "rx_d = Cls isdigit"
definition rx_s :: rx where "rx_s = Cls isspace"
definition rx_AZ :: rx where "rx_AZ = Cls is_AZ"
definition rx_az :: rx where "rx_az = Cls is_az"
definition rx_dot :: rx where "rx_dot = Chr CHR ''.''"

section \<open>text\_analyzer.py\<close>

text \<open>
  A text element as the parser's \<open>_extract_page_elements\<close> builds it: every key that
  the analysis reads is present, so the defaults of \<open>element.get(key, default)\<close> are
  never taken.
\<close>

record element =
  el_text :: string
  el_page :: int
  el_bbox :: "real list"
  el_font_size :: real
  el_is_bold :: bool
  el_is_caps :: bool
  el_x_position :: real
  el_y_position :: real

record page_data =
  pd_page_number :: int
  pd_elements :: "element list"

datatype feature = FBool bool | FNum real

record analyzed_element = element +
  heading_score :: real
  heading_features :: "(string \<times> feature) list"

text \<open>\<open>self.heading_patterns\<close>, in the order of the source.\<close>

definition heading_patterns :: "rx list" where
  "heading_patterns =
    [ Seq (Plus rx_d) (Seq (Opt rx_dot) (Seq (Plus rx_s) rx_AZ)),
      Seq (Plus rx_d) (Seq rx_dot (Seq (Plus rx_d) (Seq (Opt rx_dot) (Plus rx_s)))),
      Seq (Plus rx_d) (Seq rx_dot (Seq (Plus rx_d) (Seq rx_dot (Plus rx_d)))),
      Seq rx_AZ (Seq (Plus rx_az) (Chr CHR '':'')),
      Seq (Plus (Cls (\<lambda>c. c \<in> set ''IVX''))) (Seq (Opt rx_dot) (Seq (Plus rx_s) rx_AZ)),
      Seq rx_AZ (Seq (Opt rx_dot) (Seq (Plus rx_s) rx_AZ)),
      Seq (Lit ''Chapter'') (Seq (Plus rx_s) (Plus rx_d)),
      Seq (Lit ''Section'') (Seq (Plus rx_s) (Plus rx_d)),
      Seq (Lit ''Appendix'') (Seq (Plus rx_s) rx_AZ) ]"

definition heading_keywords :: "string list" where
  "heading_keywords =
    [ ''introduction'', ''conclusion'', ''summary'', ''overview'', ''background'',
      ''methodology'', ''method'', ''approach'', ''results'', ''discussion'',
      ''chapter'', ''section'', ''appendix'', ''references'', ''bibliography'',
      ''abstract'', ''objectives'', ''goals'', ''requirements'', ''specifications'',
      ''implementation'', ''analysis'', ''evaluation'', ''recommendations'',
      ''acknowledgments'', ''acknowledgements'', ''contents'', ''index'' ]"

text \<open>\<open>self.exclude_patterns\<close>; the fifth starts with the copyright sign, code point 169.\<close>

definition exclude_patterns :: "rx list" where
  "exclude_patterns =
    [ Seq (Plus rx_d) Eos,
      Seq (Lit ''page'') (Seq (Plus rx_s) (Plus rx_d)),
      Seq rx_d (Seq (Opt rx_d) (Seq (Cls (\<lambda>c. c \<in> set ''/-''))
        (Seq rx_d (Seq (Opt rx_d) (Seq (Cls (\<lambda>c. c \<in> set ''/-''))
          (Seq rx_d (Seq rx_d (Opt (Seq rx_d (Opt rx_d)))))))))),
      Seq (Lit ''copyright'') (Plus rx_s),
      Seq (Chr (CHR 0xA9)) (Seq (Star rx_s) (Seq rx_d (Seq rx_d (Seq rx_d rx_d)))),
      Seq (Star rx_s) Eos,
      Seq (Plus rx_az) (Seq (Chr CHR ''@'') (Seq (Plus rx_az) rx_dot)),
      Seq (Lit ''http'') (Seq (Opt (Chr CHR ''s'')) (Lit ''://'')) ]"

text \<open>
  \<open>_analyze_text_patterns\<close>: 1.5 for the first heading pattern that matches (the loop
  breaks there), then the \<open>if\<close>/\<open>elif\<close> chain on the numbering.
\<close>

definition analyze_text_patterns :: "string \<Rightarrow> real" where
  "analyze_text_patterns text =
    (let score = 0;
         score = (if list_ex (\<lambda>pattern. re_match True pattern text) heading_patterns
                  then score + 1.5 else score);
         score = (if re_match False (Seq (Plus rx_d) rx_dot) text then score + 1.0
                  else if re_match False (Seq (Plus rx_d) (Seq rx_dot (Plus rx_d))) text
                    then score + 1.2
                  else if re_match False
                      (Seq (Plus rx_d) (Seq rx_dot (Seq (Plus rx_d) (Seq rx_dot (Plus rx_d))))) text
                    then score + 1.0
                  else score)
     in score)"

definition matches_exclude_patterns :: "string \<Rightarrow> bool" where
  "matches_exclude_patterns text = list_ex (\<lambda>pattern. re_match True pattern text) exclude_patterns"

text \<open>
  \<open>_analyze_single_element\<close>. The score and the feature dictionary are threaded
  through the statements of the source in their order; the dictionary is kept as the
  list of its entries in insertion order. \<open>accumulate_score\<close> is the body of the
  function up to its last three statements, which \<open>analyze_single_element\<close> adds:
  the clamp \<open>max(0, score)\<close> and the two new keys of the copied element.
\<close>

definition accumulate_score ::
    "element \<Rightarrow> real \<Rightarrow> real \<Rightarrow> real \<times> (string \<times> feature) list" where
  "accumulate_score element avg_font font_std =
    (let text = strip (el_text element);
         font_size = el_font_size element;
         score = 0;
         features = [];
         (score, features) =
           (if font_size > avg_font
            then (score + min ((font_size - avg_font) / max font_std 1) 3.0,
                  features @ [(''large_font'', FBool True)])
            else (score, features @ [(''large_font'', FBool False)]));
         x_pos = el_x_position element;
         (score, features) =
           (if x_pos < 100 then (score + 0.5, features @ [(''left_aligned'', FBool True)])
            else (score, features));
         pattern_score = analyze_text_patterns text;
         score = score + pattern_score;
         features = features @ [(''pattern_score'', FNum pattern_score)];
         score = (if length text < 100 then score + 0.5 else score);
         score = (if length text < 50 then score + 0.5 else score);
         ws = str_split text;
         score = (if length ws \<le> 10 then score + 0.5 else score);
         (score, features) =
           (if list_ex (\<lambda>keyword. str_in keyword (lower text)) heading_keywords
            then (score + 1.0, features @ [(''has_heading_keywords'', FBool True)])
            else (score, features));
         (score, features) =
           (if el_is_bold element then (score + 1.0, features @ [(''is_bold'', FBool True)])
            else (score, features));
         (score, features) =
           (if el_is_caps element \<and> length text > 3
            then (score + 0.5, features @ [(''is_caps'', FBool True)])
            else (score, features));
         (score, features) =
           (if matches_exclude_patterns text
            then (score - 2.0, features @ [(''excluded_pattern'', FBool True)])
            else (score, features))
     in (score, features))"

definition analyze_single_element ::
    "element \<Rightarrow> real \<Rightarrow> real \<Rightarrow> real \<Rightarrow> analyzed_element" where
  "analyze_single_element element avg_font median_font font_std =
    (let (score, features) = accumulate_score element avg_font font_std
     in element.extend element
          \<lparr> heading_score = max 0 score, heading_features = features \<rparr>)"

text \<open>\<open>statistics.mean\<close>, \<open>statistics.median\<close> and \<open>statistics.stdev\<close> on a non-empty list.\<close>

definition mean :: "real list \<Rightarrow> real" where
  "mean xs = sum_list xs / real (length xs)"

definition median :: "real list \<Rightarrow> real" where
  "median xs =
    (let ys = sort xs; n = length ys in
     if n mod 2 = 1 then ys ! (n div 2) else (ys ! (n div 2 - 1) + ys ! (n div 2)) / 2)"

definition stdev :: "real list \<Rightarrow> real" where
  "stdev xs =
    (let m = mean xs in sqrt (sum_list (map (\<lambda>x. (x - m)\<^sup>2) xs) / real (length xs - 1)))"

definition analyze_elements :: "page_data list \<Rightarrow> analyzed_element list" where
  "analyze_elements pages_data =
    (let all_elements = concat (map pd_elements pages_data) in
     if all_elements = [] then []
     else
       let font_sizes = map el_font_size all_elements;
           avg_font_size = mean font_sizes;
           median_font_size = median font_sizes;
           font_size_std = (if length font_sizes > 1 then stdev font_sizes else 0)
       in map (\<lambda>element.
                 analyze_single_element element avg_font_size median_font_size font_size_std)
            all_elements)"

section \<open>heading\_detector.py\<close>

text \<open>
  The heading dictionaries. \<open>heading_dict\<close> holds the seven keys that
  \<open>_create_heading_dict\<close> sets, \<open>candidate\<close> adds the keys that the three strategies
  and \<open>_combine_strategies\<close> set (\<open>pattern_level\<close> and \<open>font_level\<close> are \<open>None\<close> where
  the key is absent, \<open>detection_methods\<close> is \<open>[]\<close> where it is absent, which is the
  default the source reads it with), and \<open>heading\<close> adds the level. The level string
  \<open>H\<close>\<open>n\<close> of the source is the number \<open>n\<close> here (\<open>f"H{level}"\<close> writes it and
  \<open>int(level[1:])\<close> reads it back).
\<close>

record heading_dict =
  h_text :: string
  h_page :: int
  h_font_size :: real
  h_is_bold :: bool
  h_bbox :: "real list"
  h_y_position :: real
  h_x_position :: real

record candidate = heading_dict +
  detection_method :: string
  confidence :: real
  pattern_level :: "nat option"
  font_level :: "nat option"
  detection_methods :: "string list"

record heading = candidate +
  h_level :: nat

definition min_heading_score :: real where
  "min_heading_score = 1.5"

definition hierarchical_patterns :: "rx list" where
  "hierarchical_patterns =
    [ Seq (Plus rx_d) (Seq (Opt rx_dot) (Plus rx_s)),
      Seq (Plus rx_d) (Seq rx_dot (Seq (Plus rx_d) (Seq (Opt rx_dot) (Plus rx_s)))),
      Seq (Plus rx_d) (Seq rx_dot (Seq (Plus rx_d) (Seq rx_dot (Seq (Plus rx_d)
        (Seq (Opt rx_dot) (Plus rx_s)))))),
      Seq (Plus rx_d) (Seq rx_dot (Seq (Plus rx_d) (Seq rx_dot (Seq (Plus rx_d)
        (Seq rx_dot (Plus rx_d)))))) ]"

definition create_heading_dict :: "'a element_scheme \<Rightarrow> heading_dict" where
  "create_heading_dict element =
    \<lparr> h_text = strip (el_text element), h_page = el_page element,
      h_font_size = el_font_size element, h_is_bold = el_is_bold element,
      h_bbox = el_bbox element, h_y_position = el_y_position element,
      h_x_position = el_x_position element \<rparr>"

definition detect_by_score :: "analyzed_element list \<Rightarrow> candidate list" where
  "detect_by_score elements =
    map (\<lambda>element.
          heading_dict.extend (create_heading_dict element)
            \<lparr> detection_method = ''score'',
              confidence = min (heading_score element / 5.0) 1.0,
              pattern_level = None, font_level = None, detection_methods = [] \<rparr>)
      (filter (\<lambda>element. heading_score element \<ge> min_heading_score) elements)"

text \<open>The first pattern of the list that matches, counted from \<open>level\<close>.\<close>

fun first_pattern :: "nat \<Rightarrow> rx list \<Rightarrow> string \<Rightarrow> nat option" where
  "first_pattern level [] text = None"
| "first_pattern level (pattern # patterns) text =
     (if re_match False pattern text then Some level
      else first_pattern (level + 1) patterns text)"

definition detect_by_patterns :: "analyzed_element list \<Rightarrow> candidate list" where
  "detect_by_patterns elements =
    concat (map (\<lambda>element.
      let text = strip (el_text element) in
      case first_pattern 1 hierarchical_patterns text of
        None \<Rightarrow> []
      | Some level \<Rightarrow>
          [heading_dict.extend (create_heading_dict element)
            \<lparr> detection_method = ''pattern'', confidence = 0.9,
              pattern_level = Some level, font_level = None, detection_methods = [] \<rparr>])
      elements)"

text \<open>
  \<open>font_groups\<close> is the \<open>defaultdict(list)\<close> of the font clustering, as the list of its
  items in insertion order; \<open>group_of\<close> reads it.
\<close>

fun groups_append :: "real \<Rightarrow> 'a \<Rightarrow> (real \<times> 'a list) list \<Rightarrow> (real \<times> 'a list) list" where
  "groups_append k v [] = [(k, [v])]"
| "groups_append k v ((k', vs) # g) =
     (if k = k' then (k', vs @ [v]) # g else (k', vs) # groups_append k v g)"

definition font_groups :: "analyzed_element list \<Rightarrow> (real \<times> analyzed_element list) list" where
  "font_groups elements = foldl (\<lambda>g element. groups_append (el_font_size element) element g) [] elements"

definition group_of :: "(real \<times> 'a list) list \<Rightarrow> real \<Rightarrow> 'a list" where
  "group_of g k = (case map_of g k of None \<Rightarrow> [] | Some vs \<Rightarrow> vs)"

text \<open>The elements of a size group that the inner loop keeps as candidates.\<close>

definition cluster_candidates :: "analyzed_element list \<Rightarrow> analyzed_element list" where
  "cluster_candidates elements_with_size =
    filter (\<lambda>element.
        let text = strip (el_text element) in
        \<not> length text > 200
        \<and> \<not> re_match False
              (Alt (Seq (Plus rx_d) Eos) (Seq (Lit ''page'') (Seq (Plus rx_s) (Plus rx_d))))
              (lower text))
      elements_with_size"

definition detect_by_font_clustering :: "analyzed_element list \<Rightarrow> candidate list" where
  "detect_by_font_clustering elements =
    (let groups = font_groups elements;
         sorted_sizes = rev (sort (map fst groups))
     in concat (map (\<lambda>(i, font_size).
          let elements_with_size = group_of groups font_size;
              candidates = cluster_candidates elements_with_size
          in if 2 \<le> length candidates \<and> length candidates \<le> 20
             then map (\<lambda>element.
                    heading_dict.extend (create_heading_dict element)
                      \<lparr> detection_method = ''font_cluster'',
                        confidence = 0.7 - (real i * 0.15),
                        pattern_level = None, font_level = Some (i + 1),
                        detection_methods = [] \<rparr>) candidates
             else [])
          (enumerate 0 (take 4 sorted_sizes))))"

text \<open>
  \<open>_combine_strategies\<close>: the dictionary \<open>combined\<close> as the list of its items in
  insertion order. A heading whose key is new is stored with its own method as the
  only detection method; a heading whose key is present raises the stored heading's
  confidence by 0.2, capped at 1.0, and appends its method to the stored heading's.
\<close>

definition heading_key :: "'a candidate_scheme \<Rightarrow> string \<times> int" where
  "heading_key heading = (take 50 (h_text heading), h_page heading)"

fun combine_add ::
    "candidate \<Rightarrow> ((string \<times> int) \<times> candidate) list \<Rightarrow> ((string \<times> int) \<times> candidate) list" where
  "combine_add heading [] =
     [(heading_key heading, heading\<lparr>detection_methods := [detection_method heading]\<rparr>)]"
| "combine_add heading ((key, existing) # combined) =
     (if key = heading_key heading
      then (key, existing\<lparr>confidence := min (confidence existing + 0.2) 1.0,
                          detection_methods :=
                            detection_methods existing @ [detection_method heading]\<rparr>) # combined
      else (key, existing) # combine_add heading combined)"

definition combine_strategies :: "candidate list list \<Rightarrow> candidate list" where
  "combine_strategies strategy_results =
    map snd (foldl (\<lambda>combined heading. combine_add heading combined) [] (concat strategy_results))"

text \<open>The position of the first occurrence, \<open>list.index\<close>.\<close>

fun index_of :: "'a \<Rightarrow> 'a list \<Rightarrow> nat option" where
  "index_of x [] = None"
| "index_of x (y # ys) = (if x = y then Some 0 else map_option Suc (index_of x ys))"

definition determine_heading_level :: "candidate \<Rightarrow> candidate list \<Rightarrow> nat" where
  "determine_heading_level heading all_headings =
    (case pattern_level heading of
       Some level \<Rightarrow> level
     | None \<Rightarrow>
         let font_size = h_font_size heading;
             font_sizes = map h_font_size all_headings;
             unique_sizes = rev (sort (remdups font_sizes))
         in (case index_of font_size unique_sizes of
               Some i \<Rightarrow> min (i + 1) 6
             | None \<Rightarrow> 3))"

text \<open>
  \<open>_assign_hierarchy_levels\<close>; the dictionary \<open>pattern_levels\<close> that it fills first is
  never read and is left out.
\<close>

definition assign_hierarchy_levels :: "candidate list \<Rightarrow> heading list" where
  "assign_hierarchy_levels headings =
    (if headings = [] then []
     else map (\<lambda>heading.
            candidate.extend heading \<lparr> h_level = determine_heading_level heading headings \<rparr>)
          headings)"

definition detect_headings :: "analyzed_element list \<Rightarrow> heading list" where
  "detect_headings analyzed_elements =
    (if analyzed_elements = [] then []
     else
       let score_headings = detect_by_score analyzed_elements;
           pattern_headings = detect_by_patterns analyzed_elements;
           font_headings = detect_by_font_clustering analyzed_elements;
           all_candidates = combine_strategies [score_headings, pattern_headings, font_headings];
           final_headings = assign_hierarchy_levels all_candidates
       in sort_key (\<lambda>h. (h_page h, h_y_position h)) final_headings)"

text \<open>The markers of \<open>filter_false_positives\<close>; the third is the two code points 194, 169.\<close>

definition false_positive_markers :: "string list" where
  "false_positive_markers =
    [ ''page '', ''copyright'', [CHR 0xC2, CHR 0xA9], ''draft'', ''confidential'',
      ''version'', ''rev'', ''date:'', ''author:'' ]"

definition keep_heading :: "'a heading_scheme \<Rightarrow> bool" where
  "keep_heading heading =
    (let text = strip (h_text heading) in
     if length text < 3 then False
     else if re_match False (Seq (Plus rx_d) Eos) text then False
     else if list_ex (\<lambda>pattern. str_in pattern (lower text)) false_positive_markers then False
     else confidence heading > 0.3)"

definition filter_false_positives :: "heading list \<Rightarrow> heading list" where
  "filter_false_positives headings = filter keep_heading headings"

section \<open>Descriptions used in the statements\<close>

text \<open>
  What \<open>_combine_strategies\<close> stores for a key whose candidates are \<open>c # cs\<close> in the order
  they arrive: the first candidate, its confidence raised by 0.2 for each later one
  and capped at 1.0, with the methods of all of them.
\<close>

definition merged :: "candidate \<Rightarrow> candidate list \<Rightarrow> candidate" where
  "merged c cs = c\<lparr>confidence := (if cs = [] then confidence c
                                   else min (confidence c + 0.2 * real (length cs)) 1),
                   detection_methods := map detection_method (c # cs)\<rparr>"

text \<open>
  The heading that the font clustering builds from an element of the size group of
  rank \<open>i\<close> (the largest size has rank 0).
\<close>

definition cluster_heading :: "nat \<Rightarrow> analyzed_element \<Rightarrow> candidate" where
  "cluster_heading i element =
     heading_dict.extend (create_heading_dict element)
       \<lparr> detection_method = ''font_cluster'', confidence = 0.7 - (real i * 0.15),
         pattern_level = None, font_level = Some (i + 1), detection_methods = [] \<rparr>"

text \<open>The distinct font sizes of the elements, largest first.\<close>

definition largest_sizes :: "analyzed_element list \<Rightarrow> real list" where
  "largest_sizes elements = rev (sort (remdups (map el_font_size elements)))"

text \<open>
  The elements of the size group of rank \<open>i\<close> that remain after the inner loop of the
  font clustering has dropped the long texts, the bare integers and the page labels.
\<close>

definition size_candidates :: "analyzed_element list \<Rightarrow> nat \<Rightarrow> analyzed_element list" where
  "size_candidates elements i =
     cluster_candidates (filter (\<lambda>e. el_font_size e = largest_sizes elements ! i) elements)"

section \<open>Example documents\<close>

text \<open>A page whose only element is the line \<open>2 apples\<close>, 12 pt, at x = 150.\<close>

definition apples :: element where
  "apples = \<lparr> el_text = ''2 apples'', el_page = 1, el_bbox = [150, 80, 200, 92],
      el_font_size = 12, el_is_bold = False, el_is_caps = False,
      el_x_position = 150, el_y_position = 80 \<rparr>"

definition apples_page :: page_data where
  "apples_page = \<lparr> pd_page_number = 1, pd_elements = [apples] \<rparr>"

text \<open>A page with the 14 pt lines \<open>Results\<close> and \<open>Page 3\<close>.\<close>

definition footer_page :: page_data where
  "footer_page = \<lparr> pd_page_number = 3, pd_elements =
     [ \<lparr> el_text = ''Results'', el_page = 3, el_bbox = [72, 90, 130, 104],
         el_font_size = 14, el_is_bold = False, el_is_caps = False,
         el_x_position = 72, el_y_position = 90 \<rparr>,
       \<lparr> el_text = ''Page 3'', el_page = 3, el_bbox = [280, 760, 320, 774],
         el_font_size = 14, el_is_bold = False, el_is_caps = False,
         el_x_position = 280, el_y_position = 760 \<rparr> ] \<rparr>"

text \<open>A page with the 14 pt lines \<open>Results\<close>, \<open>Methods\<close> and \<open>Page 3\<close>.\<close>

definition results_page :: page_data where
  "results_page = \<lparr> pd_page_number = 3, pd_elements =
     [ \<lparr> el_text = ''Results'', el_page = 3, el_bbox = [72, 90, 130, 104],
         el_font_size = 14, el_is_bold = False, el_is_caps = False,
         el_x_position = 72, el_y_position = 90 \<rparr>,
       \<lparr> el_text = ''Methods'', el_page = 3, el_bbox = [72, 400, 135, 414],
         el_font_size = 14, el_is_bold = False, el_is_caps = False,
         el_x_position = 72, el_y_position = 400 \<rparr>,
       \<lparr> el_text = ''Page 3'', el_page = 3, el_bbox = [280, 760, 320, 774],
         el_font_size = 14, el_is_bold = False, el_is_caps = False,
         el_x_position = 280, el_y_position = 760 \<rparr> ] \<rparr>"

text \<open>
  A page with one line at each of 18, 16 and 14 pt, and two different contact lines at
  12 pt, all at x = 150.
\<close>

definition contacts_page :: page_data where
  "contacts_page = \<lparr> pd_page_number = 1, pd_elements =
     [ \<lparr> el_text = ''Annual Report'', el_page = 1, el_bbox = [150, 60, 330, 78],
         el_font_size = 18, el_is_bold = False, el_is_caps = False,
         el_x_position = 150, el_y_position = 60 \<rparr>,
       \<lparr> el_text = ''Overview'', el_page = 1, el_bbox = [150, 120, 230, 136],
         el_font_size = 16, el_is_bold = False, el_is_caps = False,
         el_x_position = 150, el_y_position = 120 \<rparr>,
       \<lparr> el_text = ''Contacts'', el_page = 1, el_bbox = [150, 600, 215, 614],
         el_font_size = 14, el_is_bold = False, el_is_caps = False,
         el_x_position = 150, el_y_position = 600 \<rparr>,
       \<lparr> el_text = ''info@example.org'', el_page = 1, el_bbox = [150, 700, 250, 712],
         el_font_size = 12, el_is_bold = False, el_is_caps = False,
         el_x_position = 150, el_y_position = 700 \<rparr>,
       \<lparr> el_text = ''help@example.org'', el_page = 1, el_bbox = [150, 720, 250, 732],
         el_font_size = 12, el_is_bold = False, el_is_caps = False,
         el_x_position = 150, el_y_position = 720 \<rparr> ] \<rparr>"

text \<open>
  The same page with the contact line \<open>info@example.org\<close> at the top and again at the
  bottom, both at 12 pt.
\<close>

definition links_page :: page_data where
  "links_page = \<lparr> pd_page_number = 1, pd_elements =
     [ \<lparr> el_text = ''Annual Report'', el_page = 1, el_bbox = [150, 60, 330, 78],
         el_font_size = 18, el_is_bold = False, el_is_caps = False,
         el_x_position = 150, el_y_position = 60 \<rparr>,
       \<lparr> el_text = ''Overview'', el_page = 1, el_bbox = [150, 120, 230, 136],
         el_font_size = 16, el_is_bold = False, el_is_caps = False,
         el_x_position = 150, el_y_position = 120 \<rparr>,
       \<lparr> el_text = ''Contacts'', el_page = 1, el_bbox = [150, 600, 215, 614],
         el_font_size = 14, el_is_bold = False, el_is_caps = False,
         el_x_position = 150, el_y_position = 600 \<rparr>,
       \<lparr> el_text = ''info@example.org'', el_page = 1, el_bbox = [150, 30, 250, 42],
         el_font_size = 12, el_is_bold = False, el_is_caps = False,
         el_x_position = 150, el_y_position = 30 \<rparr>,
       \<lparr> el_text = ''info@example.org'', el_page = 1, el_bbox = [150, 720, 250, 732],
         el_font_size = 12, el_is_bold = False, el_is_caps = False,
         el_x_position = 150, el_y_position = 720 \<rparr> ] \<rparr>"

section \<open>Properties of the element analysis\<close>

lemma re_match_Null [simp]: "re_match ic Null s = False"
  by (induction s) auto

text \<open>
  C8. For every element and every triple of document-wide font statistics (mean, median,
  standard deviation), the heading score that \<open>_analyze_single_element\<close> assigns is at
  least 0: the final \<open>max(0, score)\<close> clamps the sum whatever the exclusion penalty
  took from it.
\<close>

theorem heading_score_nonneg:
  "0 \<le> heading_score (analyze_single_element element avg_font median_font font_std)"
  by (simp add: analyze_single_element_def element.extend_def split_beta)

section \<open>The text-pattern bonus\<close>

lemmas rx_defs = Plus_def Opt_def Chr_def rx_d_def rx_s_def rx_AZ_def rx_az_def rx_dot_def

lemmas cls_defs = cls_ok_def isdigit_def isspace_def is_AZ_def is_az_def isword_def
  lower_char_def upper_char_def char_of_def bit_Suc_0_iff

lemma isdigit_dot [simp]: "\<not> isdigit CHR ''.''"
  by (simp add: isdigit_def)

lemma re_match_Eps [simp]: "re_match ic Eps s"
  by (cases s) auto

text \<open>
  A text that starts with digits, a dot and anything more starts with digits and a dot.
\<close>

lemma num_dot_step:
  "re_match False (Seq (Star rx_d) (Seq rx_dot r)) s
   \<Longrightarrow> re_match False (Seq (Star rx_d) rx_dot) s"
  by (induction s) (auto simp: rx_d_def rx_dot_def Chr_def cls_ok_def split: if_splits)

lemma num_dot_prefix:
  "re_match False (Seq (Plus rx_d) (Seq rx_dot r)) s
   \<Longrightarrow> re_match False (Seq (Plus rx_d) rx_dot) s"
  using num_dot_step [of r]
  by (cases s) (auto simp: rx_d_def rx_dot_def Chr_def Plus_def cls_ok_def split: if_splits)

lemma analyze_text_patterns_intro: "analyze_text_patterns ''1. Introduction'' = 2.5"
  by (simp add: analyze_text_patterns_def heading_patterns_def rx_defs cls_defs)

text \<open>
  C5, as stated: the text-pattern bonus lies in the interval from 0 to 1.5. It fails
  on \<open>1. Introduction\<close>, which gets 1.5 for the first heading pattern and 1.0 more for
  the leading number and dot.
\<close>

theorem pattern_bonus_exceeds_one_and_a_half:
  "\<not> (\<forall>t. 0 \<le> analyze_text_patterns t \<and> analyze_text_patterns t \<le> 1.5)"
proof
  assume "\<forall>t. 0 \<le> analyze_text_patterns t \<and> analyze_text_patterns t \<le> 1.5"
  then have "analyze_text_patterns ''1. Introduction'' \<le> 1.5" by blast
  then show False by (simp add: analyze_text_patterns_intro)
qed

text \<open>
  C5, amended: for every text that does not start with digits, a dot and a digit, the
  text-pattern bonus of \<open>_analyze_text_patterns\<close> is the sum of 1.5 if one of the nine
  heading patterns matches (else 0) and of 1.0 if the text starts with digits and a
  dot (else 0); so it lies in the interval from 0 to 2.5. Nothing is said of a text
  that starts with digits, a dot and a digit, for which the source names the weights
  1.2 and 1.0 in branches that its first branch shadows.
\<close>

theorem pattern_bonus_composition:
  assumes "\<not> re_match False (Seq (Plus rx_d) (Seq rx_dot (Plus rx_d))) t"
  shows "analyze_text_patterns t =
           (if list_ex (\<lambda>pattern. re_match True pattern t) heading_patterns then 1.5 else 0)
           + (if re_match False (Seq (Plus rx_d) rx_dot) t then 1.0 else 0)
         \<and> 0 \<le> analyze_text_patterns t \<and> analyze_text_patterns t \<le> 2.5"
  using assms
    num_dot_prefix [of "Seq (Plus rx_d) (Seq rx_dot (Plus rx_d))" t]
  by (auto simp: analyze_text_patterns_def Let_def)

theorem pattern_bonus_composition_witness:
  "\<not> re_match False (Seq (Plus rx_d) (Seq rx_dot (Plus rx_d))) ''1. Introduction''
   \<and> list_ex (\<lambda>pattern. re_match True pattern ''1. Introduction'') heading_patterns
   \<and> re_match False (Seq (Plus rx_d) rx_dot) ''1. Introduction''
   \<and> analyze_text_patterns ''1. Introduction'' = 1.5 + 1.0"
proof -
  have h: "\<not> re_match False (Seq (Plus rx_d) (Seq rx_dot (Plus rx_d))) ''1. Introduction''"
    by (simp add: rx_defs cls_defs)
  have p: "list_ex (\<lambda>pattern. re_match True pattern ''1. Introduction'') heading_patterns"
    by (simp add: heading_patterns_def rx_defs cls_defs)
  have n: "re_match False (Seq (Plus rx_d) rx_dot) ''1. Introduction''"
    by (simp add: rx_defs cls_defs)
  from pattern_bonus_composition [OF h] p n h show ?thesis by simp
qed

section \<open>Heading fusion\<close>

lemma heading_key_upd [simp]:
  "heading_key (h\<lparr>confidence := a, detection_methods := b\<rparr>) = heading_key h"
  "heading_key (h\<lparr>detection_methods := b\<rparr>) = heading_key h"
  by (simp_all add: heading_key_def)

lemma map_of_combine_add:
  "map_of (combine_add x st) k =
    (if k = heading_key x
     then Some (case map_of st k of
                  None \<Rightarrow> x\<lparr>detection_methods := [detection_method x]\<rparr>
                | Some ex \<Rightarrow> ex\<lparr>confidence := min (confidence ex + 0.2) 1.0,
                      detection_methods := detection_methods ex @ [detection_method x]\<rparr>)
     else map_of st k)"
  by (induction x st rule: combine_add.induct) auto

lemma fst_combine_add:
  "map fst (combine_add x st) =
    (if heading_key x \<in> set (map fst st) then map fst st else map fst st @ [heading_key x])"
  by (induction x st rule: combine_add.induct) auto

lemma distinct_combine_add:
  "distinct (map fst st) \<Longrightarrow> distinct (map fst (combine_add x st))"
  by (simp add: fst_combine_add)

lemma boost_step:
  "min ((if n = 0 then c else min (c + 0.2 * real n) 1) + 0.2) (1::real)
   = min (c + 0.2 * real (Suc n)) 1"
  by (cases "n = 0") (auto simp: min_def field_simps)

lemma merged_step:
  "(merged c cs)\<lparr>confidence := min (confidence (merged c cs) + 0.2) 1.0,
        detection_methods := detection_methods (merged c cs) @ [detection_method x]\<rparr>
   = merged c (cs @ [x])"
  using boost_step [of "length cs" "confidence c"] by (simp add: merged_def)

lemma merged_single: "x\<lparr>detection_methods := [detection_method x]\<rparr> = merged x []"
  by (simp add: merged_def)

lemma combine_fold:
  "distinct (map fst (foldl (\<lambda>combined heading. combine_add heading combined) [] xs)) \<and>
   (\<forall>k. map_of (foldl (\<lambda>combined heading. combine_add heading combined) [] xs) k =
      (case filter (\<lambda>x. heading_key x = k) xs of [] \<Rightarrow> None | c # cs \<Rightarrow> Some (merged c cs)))"
proof (induction xs rule: rev_induct)
  case Nil
  show ?case by simp
next
  case (snoc x xs)
  let ?st = "foldl (\<lambda>combined heading. combine_add heading combined) [] xs"
  have d: "distinct (map fst (combine_add x ?st))"
    using snoc by (simp add: distinct_combine_add)
  have m: "map_of (combine_add x ?st) k =
      (case filter (\<lambda>y. heading_key y = k) (xs @ [x]) of [] \<Rightarrow> None | c # cs \<Rightarrow> Some (merged c cs))" for k
  proof (cases "k = heading_key x")
    case True
    show ?thesis
    proof (cases "filter (\<lambda>y. heading_key y = k) xs")
      case Nil
      then have "map_of ?st (heading_key x) = None" using snoc.IH [THEN conjunct2, rule_format, of "heading_key x"] True by simp
      then show ?thesis using Nil True
        by (simp add: map_of_combine_add merged_single)
    next
      case (Cons c cs)
      then have "map_of ?st (heading_key x) = Some (merged c cs)" using snoc.IH [THEN conjunct2, rule_format, of "heading_key x"] True by simp
      then show ?thesis using Cons True merged_step [of c cs x]
        by (simp add: map_of_combine_add)
    qed
  next
    case False
    then show ?thesis using snoc.IH [THEN conjunct2, rule_format, of k]
      by (simp add: map_of_combine_add)
  qed
  show ?case using d m by simp
qed


lemma strip_apples: "strip ''2 apples'' = ''2 apples''"
  by (simp add: strip_def cls_defs)

lemma accumulate_apples: "fst (accumulate_score apples 12 0) = 3"
  by (simp add: accumulate_score_def apples_def strip_apples analyze_text_patterns_def
      heading_patterns_def matches_exclude_patterns_def exclude_patterns_def heading_keywords_def
      str_split_def lower_def rx_defs cls_defs)

lemma analyze_apples:
  "analyze_elements [apples_page] =
     [element.extend apples \<lparr> heading_score = 3,
        heading_features = snd (accumulate_score apples 12 0) \<rparr>]"
  using accumulate_apples
  by (simp add: analyze_elements_def apples_page_def analyze_single_element_def mean_def
      split_beta Let_def) (simp add: apples_def)

lemma score_apples:
  "detect_by_score (analyze_elements [apples_page]) =
     [\<lparr> h_text = ''2 apples'', h_page = 1, h_font_size = 12, h_is_bold = False,
        h_bbox = [150, 80, 200, 92], h_y_position = 80, h_x_position = 150,
        detection_method = ''score'', confidence = 0.6, pattern_level = None,
        font_level = None, detection_methods = [] \<rparr>]"
  by (simp add: analyze_apples detect_by_score_def min_heading_score_def element.extend_def
      apples_def create_heading_dict_def heading_dict.extend_def strip_apples)

lemma pattern_apples:
  "detect_by_patterns (analyze_elements [apples_page]) =
     [\<lparr> h_text = ''2 apples'', h_page = 1, h_font_size = 12, h_is_bold = False,
        h_bbox = [150, 80, 200, 92], h_y_position = 80, h_x_position = 150,
        detection_method = ''pattern'', confidence = 0.9, pattern_level = Some 1,
        font_level = None, detection_methods = [] \<rparr>]"
  by (simp add: analyze_apples detect_by_patterns_def element.extend_def
      apples_def create_heading_dict_def heading_dict.extend_def strip_apples
      hierarchical_patterns_def rx_defs cls_defs)

lemma font_apples: "detect_by_font_clustering (analyze_elements [apples_page]) = []"
  by (simp add: analyze_apples detect_by_font_clustering_def font_groups_def group_of_def
      cluster_candidates_def element.extend_def apples_def enumerate_eq_zip)

lemma heading_key_merged [simp]: "heading_key (merged c cs) = heading_key c"
  by (simp add: merged_def heading_key_def)

lemma combine_members:
  assumes "h \<in> set (combine_strategies rs)"
  shows "\<exists>c cs. filter (\<lambda>x. heading_key x = heading_key h) (concat rs) = c # cs
           \<and> h = merged c cs"
proof -
  let ?st = "foldl (\<lambda>combined heading. combine_add heading combined) [] (concat rs)"
  from assms obtain k where kh: "(k, h) \<in> set ?st"
    by (auto simp: combine_strategies_def)
  have "distinct (map fst ?st)" using combine_fold [of "concat rs"] by blast
  with kh have "map_of ?st k = Some h" by simp
  moreover have "map_of ?st k =
      (case filter (\<lambda>x. heading_key x = k) (concat rs) of [] \<Rightarrow> None
       | c # cs \<Rightarrow> Some (merged c cs))"
    using combine_fold [of "concat rs"] by blast
  ultimately obtain c cs where f: "filter (\<lambda>x. heading_key x = k) (concat rs) = c # cs"
    and h: "h = merged c cs"
    by (auto split: list.splits)
  from f have "c \<in> set (filter (\<lambda>x. heading_key x = k) (concat rs))" by simp
  then have "heading_key c = k" by simp
  then have "heading_key h = k" using h by simp
  with f h show ?thesis by blast
qed

lemma combine_keys:
  "heading_key ` set (combine_strategies rs) = heading_key ` set (concat rs)"
proof -
  let ?st = "foldl (\<lambda>combined heading. combine_add heading combined) [] (concat rs)"
  have m: "map_of ?st k =
      (case filter (\<lambda>x. heading_key x = k) (concat rs) of [] \<Rightarrow> None
       | c # cs \<Rightarrow> Some (merged c cs))" for k
    using combine_fold [of "concat rs"] by blast
  show ?thesis
  proof (intro equalityI subsetI)
    fix k assume "k \<in> heading_key ` set (combine_strategies rs)"
    then obtain h where h: "h \<in> set (combine_strategies rs)" and k: "k = heading_key h" by blast
    from combine_members [OF h] obtain c cs where
      "filter (\<lambda>x. heading_key x = heading_key h) (concat rs) = c # cs" by blast
    then have "c \<in> set (filter (\<lambda>x. heading_key x = heading_key h) (concat rs))" by simp
    then have "c \<in> set (concat rs)" and "heading_key c = k" using k by simp_all
    then show "k \<in> heading_key ` set (concat rs)" by blast
  next
    fix k assume "k \<in> heading_key ` set (concat rs)"
    then obtain x where x: "x \<in> set (concat rs)" and k: "heading_key x = k" by blast
    then have "filter (\<lambda>x. heading_key x = k) (concat rs) \<noteq> []"
      by (auto simp: filter_empty_conv)
    then obtain c cs where f: "filter (\<lambda>x. heading_key x = k) (concat rs) = c # cs"
      by (cases "filter (\<lambda>x. heading_key x = k) (concat rs)") auto
    then have "map_of ?st k = Some (merged c cs)" using m [of k] by simp
    then have "(k, merged c cs) \<in> set ?st" by (rule map_of_SomeD)
    then have mem: "merged c cs \<in> set (combine_strategies rs)"
      by (force simp: combine_strategies_def)
    from f have "c \<in> set (filter (\<lambda>x. heading_key x = k) (concat rs))" by simp
    then have "heading_key (merged c cs) = k" by simp
    with mem show "k \<in> heading_key ` set (combine_strategies rs)" by blast
  qed
qed

lemma mset_concat_sum: "mset (concat rs) = sum_mset (image_mset mset (mset rs))"
  by (induction rs) auto

lemma mset_concat_perm: "mset rs' = mset rs \<Longrightarrow> mset (concat rs') = mset (concat rs)"
  by (simp add: mset_concat_sum)

lemma fst_combine_fold:
  "map fst (foldl (\<lambda>combined heading. combine_add heading combined) [] xs)
   = rev (remdups (rev (map heading_key xs)))"
proof (induction xs rule: rev_induct)
  case Nil
  show ?case by simp
next
  case (snoc x xs)
  then show ?case by (simp add: fst_combine_add)
qed

lemma combine_entry:
  assumes "(k, h) \<in> set (foldl (\<lambda>combined heading. combine_add heading combined) [] xs)"
  shows "\<exists>c cs. filter (\<lambda>x. heading_key x = k) xs = c # cs \<and> h = merged c cs
           \<and> heading_key h = k"
proof -
  let ?st = "foldl (\<lambda>combined heading. combine_add heading combined) [] xs"
  have "distinct (map fst ?st)" using combine_fold [of xs] by blast
  with assms have "map_of ?st k = Some h" by simp
  moreover have "map_of ?st k =
      (case filter (\<lambda>x. heading_key x = k) xs of [] \<Rightarrow> None
       | c # cs \<Rightarrow> Some (merged c cs))"
    using combine_fold [of xs] by blast
  ultimately obtain c cs where f: "filter (\<lambda>x. heading_key x = k) xs = c # cs"
    and h: "h = merged c cs"
    by (auto split: list.splits)
  from f have "c \<in> set (filter (\<lambda>x. heading_key x = k) xs)" by simp
  then have "heading_key c = k" by simp
  then have "heading_key h = k" using h by simp
  with f h show ?thesis by blast
qed

lemma combine_key_list:
  "map heading_key (combine_strategies rs) = rev (remdups (rev (map heading_key (concat rs))))"
proof -
  let ?st = "foldl (\<lambda>combined heading. combine_add heading combined) [] (concat rs)"
  have "heading_key (snd p) = fst p" if "p \<in> set ?st" for p
  proof -
    from that have "(fst p, snd p) \<in> set ?st" by simp
    from combine_entry [OF this] show ?thesis by blast
  qed
  then have "map heading_key (map snd ?st) = map fst ?st" by simp
  then show ?thesis by (simp add: combine_strategies_def fst_combine_fold)
qed

lemma combine_methods_perm:
  assumes p: "mset (concat rs') = mset (concat rs)"
    and h: "h \<in> set (combine_strategies rs)" and h': "h' \<in> set (combine_strategies rs')"
    and k: "heading_key h' = heading_key h"
  shows "mset (detection_methods h') = mset (detection_methods h)"
proof -
  from combine_members [OF h] obtain c cs where
    f: "filter (\<lambda>x. heading_key x = heading_key h) (concat rs) = c # cs" and hm: "h = merged c cs"
    by blast
  from combine_members [OF h'] k obtain c' cs' where
    f': "filter (\<lambda>x. heading_key x = heading_key h) (concat rs') = c' # cs'" and hm': "h' = merged c' cs'"
    by auto
  have "mset (filter (\<lambda>x. heading_key x = heading_key h) (concat rs'))
      = mset (filter (\<lambda>x. heading_key x = heading_key h) (concat rs))"
    using p by simp
  then have "mset (c' # cs') = mset (c # cs)" by (simp only: f f')
  then have "mset (map detection_method (c' # cs')) = mset (map detection_method (c # cs))"
    by (simp only: mset_map)
  then show ?thesis by (simp add: hm hm' merged_def)
qed

lemma pairs_score_first:
  "map (\<lambda>h. (heading_key h, confidence h)) (combine_strategies
     [detect_by_score (analyze_elements [apples_page]),
      detect_by_patterns (analyze_elements [apples_page]),
      detect_by_font_clustering (analyze_elements [apples_page])]) = [((''2 apples'', 1), 0.8)]"
  by (simp add: score_apples pattern_apples font_apples combine_strategies_def heading_key_def)

lemma pairs_pattern_first:
  "map (\<lambda>h. (heading_key h, confidence h)) (combine_strategies
     [detect_by_patterns (analyze_elements [apples_page]),
      detect_by_score (analyze_elements [apples_page]),
      detect_by_font_clustering (analyze_elements [apples_page])]) = [((''2 apples'', 1), 1)]"
  by (simp add: score_apples pattern_apples font_apples combine_strategies_def heading_key_def)

text \<open>
  C3, as stated: fusing the candidate lists of the three strategies in any order gives
  the same set of merged headings with the same confidence for every merged heading.
  It fails on the page with the line \<open>2 apples\<close>: the score strategy gives it
  confidence 0.6 and the pattern strategy 0.9, so the only merged heading, of key
  (\<open>2 apples\<close>, 1), has confidence 0.8 when the score strategy comes first and 1.0 when
  the pattern strategy does. The sets of pairs of key and confidence differ.
\<close>

theorem fusion_depends_on_strategy_order:
  "\<not> (\<forall>elements.
      (\<lambda>h. (heading_key h, confidence h)) ` set (combine_strategies
        [detect_by_patterns elements, detect_by_score elements,
         detect_by_font_clustering elements])
      = (\<lambda>h. (heading_key h, confidence h)) ` set (combine_strategies
        [detect_by_score elements, detect_by_patterns elements,
         detect_by_font_clustering elements]))"
proof
  assume a: "\<forall>elements.
      (\<lambda>h. (heading_key h, confidence h)) ` set (combine_strategies
        [detect_by_patterns elements, detect_by_score elements,
         detect_by_font_clustering elements])
      = (\<lambda>h. (heading_key h, confidence h)) ` set (combine_strategies
        [detect_by_score elements, detect_by_patterns elements,
         detect_by_font_clustering elements])"
  have "set (map (\<lambda>h. (heading_key h, confidence h)) (combine_strategies
        [detect_by_patterns (analyze_elements [apples_page]),
         detect_by_score (analyze_elements [apples_page]),
         detect_by_font_clustering (analyze_elements [apples_page])]))
      = set (map (\<lambda>h. (heading_key h, confidence h)) (combine_strategies
        [detect_by_score (analyze_elements [apples_page]),
         detect_by_patterns (analyze_elements [apples_page]),
         detect_by_font_clustering (analyze_elements [apples_page])]))"
    using a [rule_format, of "analyze_elements [apples_page]"] by (simp only: set_map)
  then show False
    by (simp only: pairs_score_first pairs_pattern_first) simp
qed

text \<open>
  C3, amended: \<open>_combine_strategies\<close> yields exactly one merged heading for every merge
  key (first 50 characters of the text, page) among the candidates, in the order in
  which the keys first occur. In any permutation of the strategy order the keys and the
  number of merged headings are the same, and the merged headings of a key record the
  same contributing methods, up to their order. The merged heading of a key is the
  first candidate with that key in the order used, with confidence
  \<open>min(c + 0.2 n, 1.0)\<close>, where \<open>c\<close> is that first candidate's confidence and \<open>n\<close> the
  number of later candidates with the key (\<open>c\<close> itself when there is none). The
  confidence therefore follows the strategy that comes first.
\<close>

theorem fusion_under_strategy_order:
  assumes "mset rs' = mset rs"
  shows "map heading_key (combine_strategies rs)
           = rev (remdups (rev (map heading_key (concat rs))))
    \<and> map heading_key (combine_strategies rs')
           = rev (remdups (rev (map heading_key (concat rs'))))
    \<and> set (map heading_key (combine_strategies rs')) = set (map heading_key (combine_strategies rs))
    \<and> length (combine_strategies rs') = length (combine_strategies rs)
    \<and> (\<forall>h \<in> set (combine_strategies rs). \<exists>c cs.
          filter (\<lambda>x. heading_key x = heading_key h) (concat rs) = c # cs
          \<and> h = c\<lparr>confidence := (if cs = [] then confidence c
                                   else min (confidence c + 0.2 * real (length cs)) 1),
                   detection_methods := map detection_method (c # cs)\<rparr>)
    \<and> (\<forall>h \<in> set (combine_strategies rs). \<forall>h' \<in> set (combine_strategies rs').
          heading_key h' = heading_key h \<longrightarrow>
            mset (detection_methods h') = mset (detection_methods h))"
proof -
  have p: "mset (concat rs') = mset (concat rs)" using assms by (rule mset_concat_perm)
  then have s: "set (concat rs') = set (concat rs)" by (rule mset_eq_setD)
  have 1: "map heading_key (combine_strategies rs)
           = rev (remdups (rev (map heading_key (concat rs))))"
    by (rule combine_key_list)
  have 2: "map heading_key (combine_strategies rs')
           = rev (remdups (rev (map heading_key (concat rs'))))"
    by (rule combine_key_list)
  have 3: "set (map heading_key (combine_strategies rs')) = set (map heading_key (combine_strategies rs))"
    using s by (simp add: combine_keys)
  have "distinct (map heading_key (combine_strategies rs))"
       "distinct (map heading_key (combine_strategies rs'))"
    by (simp_all add: combine_key_list)
  with 3 have "length (map heading_key (combine_strategies rs'))
      = length (map heading_key (combine_strategies rs))"
    by (metis distinct_card)
  then have 4: "length (combine_strategies rs') = length (combine_strategies rs)" by simp
  have 5: "\<forall>h \<in> set (combine_strategies rs). \<exists>c cs.
          filter (\<lambda>x. heading_key x = heading_key h) (concat rs) = c # cs
          \<and> h = c\<lparr>confidence := (if cs = [] then confidence c
                                   else min (confidence c + 0.2 * real (length cs)) 1),
                   detection_methods := map detection_method (c # cs)\<rparr>"
    using combine_members [of _ rs] by (simp add: merged_def)
  have 6: "\<forall>h \<in> set (combine_strategies rs). \<forall>h' \<in> set (combine_strategies rs').
          heading_key h' = heading_key h \<longrightarrow>
            mset (detection_methods h') = mset (detection_methods h)"
    using combine_methods_perm [OF p] by blast
  from 1 2 3 4 5 6 show ?thesis by blast
qed

theorem fusion_under_strategy_order_witness:
  "mset [detect_by_patterns (analyze_elements [apples_page]),
         detect_by_score (analyze_elements [apples_page]),
         detect_by_font_clustering (analyze_elements [apples_page])]
   = mset [detect_by_score (analyze_elements [apples_page]),
         detect_by_patterns (analyze_elements [apples_page]),
         detect_by_font_clustering (analyze_elements [apples_page])]
   \<and> map heading_key (combine_strategies
         [detect_by_score (analyze_elements [apples_page]),
          detect_by_patterns (analyze_elements [apples_page]),
          detect_by_font_clustering (analyze_elements [apples_page])]) = [(''2 apples'', 1)]
   \<and> map heading_key (combine_strategies
         [detect_by_patterns (analyze_elements [apples_page]),
          detect_by_score (analyze_elements [apples_page]),
          detect_by_font_clustering (analyze_elements [apples_page])]) = [(''2 apples'', 1)]"
proof -
  have m: "mset [detect_by_patterns (analyze_elements [apples_page]),
         detect_by_score (analyze_elements [apples_page]),
         detect_by_font_clustering (analyze_elements [apples_page])]
   = mset [detect_by_score (analyze_elements [apples_page]),
         detect_by_patterns (analyze_elements [apples_page]),
         detect_by_font_clustering (analyze_elements [apples_page])]"
    by (simp add: add_mset_commute)
  from fusion_under_strategy_order [OF m] m show ?thesis
    by (simp add: score_apples pattern_apples font_apples heading_key_def)
qed

section \<open>Font clustering\<close>

lemma map_of_groups_append:
  "map_of (groups_append k v g) k' =
    (if k' = k then Some ((case map_of g k of None \<Rightarrow> [] | Some vs \<Rightarrow> vs) @ [v])
     else map_of g k')"
  by (induction k v g rule: groups_append.induct) auto

lemma fst_groups_append:
  "map fst (groups_append k v g) =
    (if k \<in> set (map fst g) then map fst g else map fst g @ [k])"
  by (induction k v g rule: groups_append.induct) auto

lemma font_groups_fold:
  "distinct (map fst (font_groups els))
   \<and> set (map fst (font_groups els)) = el_font_size ` set els
   \<and> (\<forall>k. group_of (font_groups els) k = filter (\<lambda>e. el_font_size e = k) els)"
proof (induction els rule: rev_induct)
  case Nil
  show ?case by (simp add: font_groups_def group_of_def)
next
  case (snoc x xs)
  let ?g = "font_groups xs"
  have step: "font_groups (xs @ [x]) = groups_append (el_font_size x) x ?g"
    by (simp add: font_groups_def)
  have g: "group_of ?g k = filter (\<lambda>e. el_font_size e = k) xs" for k
    using snoc by blast
  have "group_of (font_groups (xs @ [x])) k = filter (\<lambda>e. el_font_size e = k) (xs @ [x])" for k
    using g [of k] g [of "el_font_size x"]
    by (auto simp: step group_of_def map_of_groups_append split: option.splits)
  then show ?case using snoc by (auto simp: step fst_groups_append)
qed

lemma sort_distinct_eq:
  fixes xs ys :: "real list"
  assumes "distinct xs" "distinct ys" "set xs = set ys"
  shows "sort xs = sort ys"
  using assms by (intro sorted_distinct_set_unique) auto

lemma sorted_sizes_eq:
  "sort (map fst (font_groups els)) = sort (remdups (map el_font_size els))"
  using font_groups_fold [of els] by (intro sort_distinct_eq) auto

lemma font_clustering_refine:
  "detect_by_font_clustering els =
    concat (map (\<lambda>(i, font_size).
        let candidates = cluster_candidates (filter (\<lambda>e. el_font_size e = font_size) els)
        in if 2 \<le> length candidates \<and> length candidates \<le> 20
           then map (cluster_heading i) candidates else [])
      (enumerate 0 (take 4 (rev (sort (remdups (map el_font_size els)))))))"
proof -
  have g: "group_of (font_groups els) = (\<lambda>k. filter (\<lambda>e. el_font_size e = k) els)"
    using font_groups_fold [of els] by (intro ext) blast
  show ?thesis
    unfolding detect_by_font_clustering_def sorted_sizes_eq g Let_def cluster_heading_def
    by (rule refl)
qed

lemma in_concat_enumerate:
  "h \<in> set (concat (map (\<lambda>(i, x). f i x) (enumerate 0 xs)))
     \<longleftrightarrow> (\<exists>i < length xs. h \<in> set (f i (xs ! i)))"
proof
  assume "h \<in> set (concat (map (\<lambda>(i, x). f i x) (enumerate 0 xs)))"
  then obtain p where "p \<in> set (enumerate 0 xs)" "h \<in> set (f (fst p) (snd p))"
    by (auto simp: split_beta)
  then show "\<exists>i < length xs. h \<in> set (f i (xs ! i))"
    by (auto simp: in_set_enumerate_eq)
next
  assume "\<exists>i < length xs. h \<in> set (f i (xs ! i))"
  then obtain i where i: "i < length xs" "h \<in> set (f i (xs ! i))" by blast
  then have "(i, xs ! i) \<in> set (enumerate 0 xs)" by (simp add: in_set_enumerate_eq)
  with i show "h \<in> set (concat (map (\<lambda>(i, x). f i x) (enumerate 0 xs)))"
    by (auto intro!: bexI [of _ "(i, xs ! i)"])
qed

lemma font_cluster_mem:
  "h \<in> set (detect_by_font_clustering els) \<longleftrightarrow>
    (\<exists>i e. i < 4 \<and> i < length (largest_sizes els)
       \<and> 2 \<le> length (cluster_candidates (filter (\<lambda>e. el_font_size e = largest_sizes els ! i) els))
       \<and> length (cluster_candidates (filter (\<lambda>e. el_font_size e = largest_sizes els ! i) els)) \<le> 20
       \<and> e \<in> set (cluster_candidates (filter (\<lambda>e. el_font_size e = largest_sizes els ! i) els))
       \<and> h = cluster_heading i e)"
proof -
  let ?c = "\<lambda>i. cluster_candidates (filter (\<lambda>e. el_font_size e = largest_sizes els ! i) els)"
  have "h \<in> set (detect_by_font_clustering els) \<longleftrightarrow>
      (\<exists>i < length (take 4 (largest_sizes els)).
         h \<in> set (if 2 \<le> length (?c i) \<and> length (?c i) \<le> 20
                    then map (cluster_heading i) (?c i) else []))"
    unfolding font_clustering_refine largest_sizes_def [symmetric] in_concat_enumerate Let_def
    by (intro ex_cong1) auto
  also have "\<dots> \<longleftrightarrow> (\<exists>i e. i < 4 \<and> i < length (largest_sizes els)
       \<and> 2 \<le> length (?c i) \<and> length (?c i) \<le> 20 \<and> e \<in> set (?c i)
       \<and> h = cluster_heading i e)"
    by (intro ex_cong1) (auto split: if_splits)
  finally show ?thesis .
qed

lemma cluster_heading_fields [simp]:
  "font_level (cluster_heading i e) = Some (i + 1)"
  "confidence (cluster_heading i e) = 0.7 - 0.15 * real i"
  "h_font_size (cluster_heading i e) = el_font_size e"
  "detection_method (cluster_heading i e) = ''font_cluster''"
  by (simp_all add: cluster_heading_def heading_dict.extend_def create_heading_dict_def)

lemma cluster_candidates_subset:
  "e \<in> set (cluster_candidates xs) \<Longrightarrow> e \<in> set xs"
  by (simp add: cluster_candidates_def)

lemma analyze_single_fields [simp]:
  "el_text (analyze_single_element e a m s) = el_text e"
  "el_page (analyze_single_element e a m s) = el_page e"
  "el_bbox (analyze_single_element e a m s) = el_bbox e"
  "el_font_size (analyze_single_element e a m s) = el_font_size e"
  "el_is_bold (analyze_single_element e a m s) = el_is_bold e"
  "el_x_position (analyze_single_element e a m s) = el_x_position e"
  "el_y_position (analyze_single_element e a m s) = el_y_position e"
  by (simp_all add: analyze_single_element_def element.extend_def split_beta)

lemma map_enumerate_nth:
  "map (\<lambda>(i, x). f i x) (enumerate 0 ys) = map (\<lambda>i. f i (ys ! i)) [0..<length ys]"
proof (rule nth_equalityI)
  show "length (map (\<lambda>(i, x). f i x) (enumerate 0 ys)) = length (map (\<lambda>i. f i (ys ! i)) [0..<length ys])"
    by simp
next
  fix i assume "i < length (map (\<lambda>(i, x). f i x) (enumerate 0 ys))"
  then have "i < length ys" by simp
  then show "map (\<lambda>(i, x). f i x) (enumerate 0 ys) ! i = map (\<lambda>i. f i (ys ! i)) [0..<length ys] ! i"
    by (simp add: nth_enumerate_eq)
qed

lemma font_clustering_ranks:
  "detect_by_font_clustering els =
     concat (map (\<lambda>i. if 2 \<le> length (size_candidates els i) \<and> length (size_candidates els i) \<le> 20
                        then map (cluster_heading i) (size_candidates els i) else [])
       [0..<min 4 (length (largest_sizes els))])"
proof -
  have "map (\<lambda>(i, font_size).
        let candidates = cluster_candidates (filter (\<lambda>e. el_font_size e = font_size) els)
        in if 2 \<le> length candidates \<and> length candidates \<le> 20
           then map (cluster_heading i) candidates else [])
      (enumerate 0 (take 4 (largest_sizes els)))
    = map (\<lambda>i. if 2 \<le> length (size_candidates els i) \<and> length (size_candidates els i) \<le> 20
                        then map (cluster_heading i) (size_candidates els i) else [])
       [0..<min 4 (length (largest_sizes els))]"
    unfolding map_enumerate_nth
    by (auto simp: Let_def size_candidates_def min.commute)
  then show ?thesis
    unfolding font_clustering_refine largest_sizes_def [symmetric] by simp
qed

lemma footer_sizes: "largest_sizes (analyze_elements [footer_page]) = [14]"
  by (simp add: largest_sizes_def analyze_elements_def footer_page_def Let_def)

lemma footer_group:
  "length (filter (\<lambda>e. el_font_size e = 14) (analyze_elements [footer_page])) = 2"
  by (simp add: analyze_elements_def footer_page_def Let_def)

lemma footer_candidates:
  "length (size_candidates (analyze_elements [footer_page]) 0) = 1"
  by (simp add: size_candidates_def footer_sizes)
     (simp add: analyze_elements_def footer_page_def Let_def cluster_candidates_def strip_def lower_def
        lower_char_def rx_defs cls_defs)

lemma footer_clustering: "detect_by_font_clustering (analyze_elements [footer_page]) = []"
  by (simp add: font_clustering_ranks footer_sizes footer_candidates)

text \<open>
  C9, as stated: a size group among the four largest produces heading candidates if and
  only if it contains between 2 and 20 elements. It fails on the page with the 14 pt
  lines \<open>Results\<close> and \<open>Page 3\<close>: the group of the largest size has two elements, but
  the page label is dropped before the count, one element remains, and the group
  produces no candidate.
\<close>

theorem font_group_of_two_without_candidates:
  "\<not> (\<forall>pages i. i < 4 \<and> i < length (largest_sizes (analyze_elements pages)) \<longrightarrow>
        ((\<exists>h \<in> set (detect_by_font_clustering (analyze_elements pages)).
            h_font_size h = largest_sizes (analyze_elements pages) ! i)
         \<longleftrightarrow> 2 \<le> length (filter (\<lambda>e. el_font_size e = largest_sizes (analyze_elements pages) ! i)
                           (analyze_elements pages))
             \<and> length (filter (\<lambda>e. el_font_size e = largest_sizes (analyze_elements pages) ! i)
                           (analyze_elements pages)) \<le> 20))"
proof
  assume a: "\<forall>pages i. i < 4 \<and> i < length (largest_sizes (analyze_elements pages)) \<longrightarrow>
        ((\<exists>h \<in> set (detect_by_font_clustering (analyze_elements pages)).
            h_font_size h = largest_sizes (analyze_elements pages) ! i)
         \<longleftrightarrow> 2 \<le> length (filter (\<lambda>e. el_font_size e = largest_sizes (analyze_elements pages) ! i)
                           (analyze_elements pages))
             \<and> length (filter (\<lambda>e. el_font_size e = largest_sizes (analyze_elements pages) ! i)
                           (analyze_elements pages)) \<le> 20)"
  show False
    using a [rule_format, of 0 "[footer_page]"]
    by (simp add: footer_sizes footer_group footer_clustering)
qed

text \<open>
  C9, amended: only the four largest distinct font sizes are examined. From the group
  of the size of rank \<open>i\<close> (\<open>i\<close> from 0) the elements are dropped whose stripped text is
  longer than 200 characters or, in lower case, is a bare integer or starts with
  \<open>page\<close>, white space and a digit; the group produces heading candidates if and only
  if between 2 and 20 elements remain, and then exactly the remaining elements become
  candidates, in their order, each with font level \<open>i + 1\<close> and confidence
  \<open>0.7 - 0.15 i\<close>. The output lists the groups by rank.
\<close>

theorem font_clustering_groups:
  "detect_by_font_clustering els =
     concat (map (\<lambda>i. if 2 \<le> length (size_candidates els i) \<and> length (size_candidates els i) \<le> 20
                        then map (cluster_heading i) (size_candidates els i) else [])
       [0..<min 4 (length (largest_sizes els))])
   \<and> (\<forall>h \<in> set (detect_by_font_clustering els). \<exists>i<4. i < length (largest_sizes els)
       \<and> h_font_size h = largest_sizes els ! i \<and> font_level h = Some (i + 1)
       \<and> confidence h = 0.7 - 0.15 * real i)
   \<and> (\<forall>i. i < 4 \<and> i < length (largest_sizes els) \<longrightarrow>
        ((\<exists>h \<in> set (detect_by_font_clustering els). font_level h = Some (i + 1)) \<longleftrightarrow>
         2 \<le> length (size_candidates els i) \<and> length (size_candidates els i) \<le> 20))"
proof (intro conjI ballI allI impI)
  show "detect_by_font_clustering els =
     concat (map (\<lambda>i. if 2 \<le> length (size_candidates els i) \<and> length (size_candidates els i) \<le> 20
                        then map (cluster_heading i) (size_candidates els i) else [])
       [0..<min 4 (length (largest_sizes els))])"
    by (rule font_clustering_ranks)
next
  fix h assume "h \<in> set (detect_by_font_clustering els)"
  then obtain i e where i: "i < 4" "i < length (largest_sizes els)"
    and e: "e \<in> set (cluster_candidates (filter (\<lambda>e. el_font_size e = largest_sizes els ! i) els))"
    and h: "h = cluster_heading i e"
    unfolding font_cluster_mem by blast
  from e have "el_font_size e = largest_sizes els ! i"
    using cluster_candidates_subset by fastforce
  with i h show "\<exists>i<4. i < length (largest_sizes els)
       \<and> h_font_size h = largest_sizes els ! i \<and> font_level h = Some (i + 1)
       \<and> confidence h = 0.7 - 0.15 * real i"
    by auto
next
  fix i assume i: "i < 4 \<and> i < length (largest_sizes els)"
  let ?c = "cluster_candidates (filter (\<lambda>e. el_font_size e = largest_sizes els ! i) els)"
  have "(\<exists>h \<in> set (detect_by_font_clustering els). font_level h = Some (i + 1)) \<longleftrightarrow>
         2 \<le> length ?c \<and> length ?c \<le> 20"
  proof
    assume "\<exists>h \<in> set (detect_by_font_clustering els). font_level h = Some (i + 1)"
    then obtain h where "h \<in> set (detect_by_font_clustering els)" "font_level h = Some (i + 1)"
      by blast
    then show "2 \<le> length ?c \<and> length ?c \<le> 20"
      unfolding font_cluster_mem by auto
  next
    assume c: "2 \<le> length ?c \<and> length ?c \<le> 20"
    then obtain e where "e \<in> set ?c" by (cases ?c) auto
    with c i have "cluster_heading i e \<in> set (detect_by_font_clustering els)"
      unfolding font_cluster_mem by blast
    then show "\<exists>h \<in> set (detect_by_font_clustering els). font_level h = Some (i + 1)"
      by (rule rev_bexI) simp
  qed
  then show "(\<exists>h \<in> set (detect_by_font_clustering els). font_level h = Some (i + 1)) \<longleftrightarrow>
         2 \<le> length (size_candidates els i) \<and> length (size_candidates els i) \<le> 20"
    by (simp add: size_candidates_def)
qed

lemma results_sizes: "largest_sizes (analyze_elements [results_page]) = [14]"
  by (simp add: largest_sizes_def analyze_elements_def results_page_def Let_def)

lemma results_candidates:
  "map el_text (size_candidates (analyze_elements [results_page]) 0) = [''Results'', ''Methods'']"
  by (simp add: size_candidates_def results_sizes)
     (simp add: analyze_elements_def results_page_def Let_def cluster_candidates_def strip_def lower_def
        lower_char_def rx_defs cls_defs)

theorem font_clustering_groups_witness:
  "(0::nat) < 4 \<and> 0 < length (largest_sizes (analyze_elements [results_page]))
   \<and> length (size_candidates (analyze_elements [results_page]) 0) = 2
   \<and> (\<exists>h \<in> set (detect_by_font_clustering (analyze_elements [results_page])).
         font_level h = Some 1 \<and> confidence h = 0.7)
   \<and> length (detect_by_font_clustering (analyze_elements [results_page])) = 2"
proof -
  let ?E = "analyze_elements [results_page]"
  have c: "length (size_candidates ?E 0) = 2"
    using results_candidates by (metis length_map list.size(3,4) One_nat_def Suc_1 add.right_neutral add_Suc_right)
  note t = font_clustering_groups [of ?E]
  have z: "(0::nat) < 4 \<and> 0 < length (largest_sizes ?E)" by (simp add: results_sizes)
  from t [THEN conjunct2, THEN conjunct2, rule_format, OF z] c
  obtain h where h: "h \<in> set (detect_by_font_clustering ?E)" "font_level h = Some 1"
    by auto
  from t [THEN conjunct2, THEN conjunct1, rule_format, OF h(1)]
  obtain i where "font_level h = Some (i + 1)" "confidence h = 0.7 - 0.15 * real i"
    by blast
  with h(2) have "confidence h = 0.7" by simp
  with h have e: "\<exists>h \<in> set (detect_by_font_clustering ?E). font_level h = Some 1 \<and> confidence h = 0.7"
    by blast
  have "length (detect_by_font_clustering ?E) = 2"
    by (subst t [THEN conjunct1]) (simp add: results_sizes c)
  with c e show ?thesis by (simp add: results_sizes)
qed

section \<open>Headings from the fourth size group\<close>

lemma combine_merged_mem:
  assumes f: "filter (\<lambda>x. heading_key x = k) (concat rs) = c # cs"
  shows "merged c cs \<in> set (combine_strategies rs)"
proof -
  let ?st = "foldl (\<lambda>combined heading. combine_add heading combined) [] (concat rs)"
  have "map_of ?st k =
      (case filter (\<lambda>x. heading_key x = k) (concat rs) of [] \<Rightarrow> None
       | c # cs \<Rightarrow> Some (merged c cs))"
    using combine_fold [of "concat rs"] by blast
  then have "map_of ?st k = Some (merged c cs)" using f by simp
  then have "(k, merged c cs) \<in> set ?st" by (rule map_of_SomeD)
  then show ?thesis by (force simp: combine_strategies_def)
qed

lemma detect_headings_set:
  "set (detect_headings E) =
     (\<lambda>c. candidate.extend c \<lparr> h_level = determine_heading_level c
              (combine_strategies [detect_by_score E, detect_by_patterns E,
                 detect_by_font_clustering E]) \<rparr>)
       ` (if E = [] then {} else set (combine_strategies [detect_by_score E, detect_by_patterns E,
                 detect_by_font_clustering E]))"
  by (simp add: detect_headings_def assign_hierarchy_levels_def Let_def)

lemma extend_fields [simp]:
  "confidence (candidate.extend c x) = confidence c"
  "font_level (candidate.extend c x) = font_level c"
  "detection_methods (candidate.extend c x) = detection_methods c"
  "h_text (candidate.extend c x) = h_text c"
  by (simp_all add: candidate.extend_def)

lemma merged_fields [simp]:
  "font_level (merged c cs) = font_level c"
  "detection_methods (merged c cs) = map detection_method (c # cs)"
  "h_text (merged c cs) = h_text c"
  "confidence (merged c []) = confidence c"
  by (simp_all add: merged_def)

lemma score_method: "x \<in> set (detect_by_score E) \<Longrightarrow> detection_method x = ''score''"
  by (auto simp: detect_by_score_def heading_dict.extend_def)

lemma pattern_method: "x \<in> set (detect_by_patterns E) \<Longrightarrow> detection_method x = ''pattern''"
  by (auto simp: detect_by_patterns_def heading_dict.extend_def Let_def split: option.splits)

lemma not_kept: "\<not> confidence h > 0.3 \<Longrightarrow> \<not> keep_heading h"
  by (simp add: keep_heading_def Let_def)

lemma strip_info: "strip ''info@example.org'' = ''info@example.org''"
  by (simp add: strip_def cls_defs)

lemma info_score:
  assumes "el_text e = ''info@example.org''" "\<not> el_font_size e > avg" "\<not> el_x_position e < 100"
    "\<not> el_is_bold e" "\<not> el_is_caps e"
  shows "heading_score (analyze_single_element e avg med std) = 0"
  using assms
  by (simp add: analyze_single_element_def element.extend_def split_beta accumulate_score_def
      strip_info analyze_text_patterns_def
      heading_patterns_def matches_exclude_patterns_def exclude_patterns_def heading_keywords_def
      str_split_def lower_def rx_defs cls_defs)

lemma score_key_none:
  assumes "\<forall>e \<in> set E. min_heading_score \<le> heading_score e \<longrightarrow>
             (take 50 (strip (el_text e)), el_page e) \<noteq> k"
  shows "filter (\<lambda>x. heading_key x = k) (detect_by_score E) = []"
  using assms
  by (auto simp: filter_empty_conv detect_by_score_def heading_key_def create_heading_dict_def
      heading_dict.extend_def)

lemma cluster_heading_key [simp]:
  "h_text (cluster_heading i e) = strip (el_text e)"
  "h_page (cluster_heading i e) = el_page e"
  by (simp_all add: cluster_heading_def heading_dict.extend_def create_heading_dict_def)

lemma links_elements:
  "analyze_elements [links_page] =
     map (\<lambda>e. analyze_single_element e (72 / 5) (median [18, 16, 14, 12, 12])
                 (stdev [18, 16, 14, 12, 12])) (pd_elements links_page)"
  by (simp add: analyze_elements_def links_page_def Let_def mean_def)

lemma links_sizes: "largest_sizes (analyze_elements [links_page]) = [18, 16, 14, 12]"
  unfolding links_elements by (simp add: largest_sizes_def links_page_def)

lemma links_score:
  "filter (\<lambda>x. heading_key x = (''info@example.org'', 1))
     (detect_by_score (analyze_elements [links_page])) = []"
  unfolding links_elements
  by (rule score_key_none)
     (simp add: links_page_def info_score min_heading_score_def strip_def cls_defs)

lemma links_patterns: "detect_by_patterns (analyze_elements [links_page]) = []"
  unfolding links_elements
  by (simp add: links_page_def detect_by_patterns_def hierarchical_patterns_def
      strip_def rx_defs cls_defs)

lemma links_font:
  "map (\<lambda>h. (h_text h, h_page h, confidence h, font_level h, detection_method h))
     (detect_by_font_clustering (analyze_elements [links_page]))
   = [(''info@example.org'', 1, 0.25, Some 4, ''font_cluster''),
      (''info@example.org'', 1, 0.25, Some 4, ''font_cluster'')]"
  by (simp add: font_clustering_ranks links_sizes size_candidates_def upt_rec [of 0] upt_rec [of 1]
        upt_rec [of 2] upt_rec [of 3])
     (simp add: links_elements, simp add: links_page_def cluster_candidates_def strip_def lower_def
        lower_char_def rx_defs cls_defs)

lemma contacts_elements:
  "analyze_elements [contacts_page] =
     map (\<lambda>e. analyze_single_element e (72 / 5) (median [18, 16, 14, 12, 12])
                 (stdev [18, 16, 14, 12, 12])) (pd_elements contacts_page)"
  by (simp add: analyze_elements_def contacts_page_def Let_def mean_def)

lemma contacts_sizes: "largest_sizes (analyze_elements [contacts_page]) = [18, 16, 14, 12]"
  unfolding contacts_elements by (simp add: largest_sizes_def contacts_page_def)

lemma contacts_score:
  "filter (\<lambda>x. heading_key x = (''info@example.org'', 1))
     (detect_by_score (analyze_elements [contacts_page])) = []"
  unfolding contacts_elements
  by (rule score_key_none)
     (simp add: contacts_page_def info_score min_heading_score_def strip_def cls_defs)

lemma contacts_patterns: "detect_by_patterns (analyze_elements [contacts_page]) = []"
  unfolding contacts_elements
  by (simp add: contacts_page_def detect_by_patterns_def hierarchical_patterns_def
      strip_def rx_defs cls_defs)

lemma contacts_font:
  "map (\<lambda>h. (h_text h, h_page h, confidence h, font_level h, detection_method h))
     (detect_by_font_clustering (analyze_elements [contacts_page]))
   = [(''info@example.org'', 1, 0.25, Some 4, ''font_cluster''),
      (''help@example.org'', 1, 0.25, Some 4, ''font_cluster'')]"
  by (simp add: font_clustering_ranks contacts_sizes size_candidates_def upt_rec [of 0] upt_rec [of 1]
        upt_rec [of 2] upt_rec [of 3])
     (simp add: contacts_elements, simp add: contacts_page_def cluster_candidates_def strip_def lower_def
        lower_char_def rx_defs cls_defs)

lemma map_eq_two:
  "map f xs = [a, b] \<Longrightarrow> \<exists>x y. xs = [x, y] \<and> f x = a \<and> f y = b"
  by (cases xs; cases "tl xs"; cases "tl (tl xs)") auto

lemma kept_info:
  assumes "h_text h = ''info@example.org''" "confidence h > 0.3"
  shows "keep_heading h"
  using assms
  by (simp add: keep_heading_def Let_def strip_info false_positive_markers_def lower_def
      rx_defs cls_defs)

lemma links_merged:
  "\<exists>h \<in> set (filter_false_positives (detect_headings (analyze_elements [links_page]))).
      h \<in> set (detect_headings (analyze_elements [links_page]))
      \<and> font_level h = Some 4
      \<and> detection_methods h = [''font_cluster'', ''font_cluster'']
      \<and> confidence h = 0.45"
proof -
  let ?E = "analyze_elements [links_page]"
  let ?rs = "[detect_by_score ?E, detect_by_patterns ?E, detect_by_font_clustering ?E]"
  let ?k = "(''info@example.org'', 1::int)"
  from map_eq_two [OF links_font] obtain c1 c2 where
    font: "detect_by_font_clustering ?E = [c1, c2]"
    and c1: "h_text c1 = ''info@example.org''" "h_page c1 = 1" "confidence c1 = 0.25"
      "font_level c1 = Some 4" "detection_method c1 = ''font_cluster''"
    and c2: "h_text c2 = ''info@example.org''" "h_page c2 = 1"
      "detection_method c2 = ''font_cluster''"
    by auto
  have "filter (\<lambda>x. heading_key x = ?k) (concat ?rs) = [c1, c2]"
    using links_score by (simp add: links_patterns font heading_key_def c1 c2)
  then have m: "merged c1 [c2] \<in> set (combine_strategies ?rs)" by (rule combine_merged_mem)
  have ne: "?E \<noteq> []" unfolding links_elements by (simp add: links_page_def)
  define h where "h = candidate.extend (merged c1 [c2])
      \<lparr> h_level = determine_heading_level (merged c1 [c2]) (combine_strategies ?rs) \<rparr>"
  from m ne have mem: "h \<in> set (detect_headings ?E)"
    unfolding detect_headings_set h_def by auto
  have f: "font_level h = Some 4" "detection_methods h = [''font_cluster'', ''font_cluster'']"
    "h_text h = ''info@example.org''"
    by (simp_all add: h_def c1 c2)
  have conf: "confidence h = 0.45" by (simp add: h_def merged_def c1)
  then have "keep_heading h" using f(3) by (intro kept_info) simp_all
  with mem have "h \<in> set (filter_false_positives (detect_headings ?E))"
    by (simp add: filter_false_positives_def)
  with mem f conf show ?thesis by blast
qed

text \<open>
  C10, as stated: a heading that only the font clustering produced, from the group of
  the fourth-largest size, has confidence 0.25 and never passes the false-positive
  filter. It fails on the page that carries the line \<open>info@example.org\<close> twice at the
  fourth-largest size: the two candidates have the same merge key, the fusion adds 0.2
  for the second, and the merged heading, with the methods \<open>font_cluster\<close>,
  \<open>font_cluster\<close> and confidence 0.45, passes the filter.
\<close>

theorem repeated_fourth_group_line_is_kept:
  "\<not> (\<forall>pages. \<forall>h \<in> set (detect_headings (analyze_elements pages)).
        font_level h = Some 4 \<and> set (detection_methods h) = {''font_cluster''} \<longrightarrow>
          confidence h = 0.25)
   \<and> \<not> (\<forall>pages. \<forall>h \<in> set (detect_headings (analyze_elements pages)).
        font_level h = Some 4 \<and> set (detection_methods h) = {''font_cluster''} \<longrightarrow>
          h \<notin> set (filter_false_positives (detect_headings (analyze_elements pages))))"
proof -
  from links_merged obtain h where
    k: "h \<in> set (filter_false_positives (detect_headings (analyze_elements [links_page])))"
    and m: "h \<in> set (detect_headings (analyze_elements [links_page]))"
    and f: "font_level h = Some 4" "detection_methods h = [''font_cluster'', ''font_cluster'']"
    and c: "confidence h = 0.45"
    by blast
  from f(2) have s: "set (detection_methods h) = {''font_cluster''}" by simp
  have 1: "\<not> (\<forall>pages. \<forall>h \<in> set (detect_headings (analyze_elements pages)).
        font_level h = Some 4 \<and> set (detection_methods h) = {''font_cluster''} \<longrightarrow>
          confidence h = 0.25)"
  proof
    assume "\<forall>pages. \<forall>h \<in> set (detect_headings (analyze_elements pages)).
        font_level h = Some 4 \<and> set (detection_methods h) = {''font_cluster''} \<longrightarrow>
          confidence h = 0.25"
    with m f(1) s have "confidence h = 0.25" by blast
    with c show False by simp
  qed
  have 2: "\<not> (\<forall>pages. \<forall>h \<in> set (detect_headings (analyze_elements pages)).
        font_level h = Some 4 \<and> set (detection_methods h) = {''font_cluster''} \<longrightarrow>
          h \<notin> set (filter_false_positives (detect_headings (analyze_elements pages))))"
  proof
    assume "\<forall>pages. \<forall>h \<in> set (detect_headings (analyze_elements pages)).
        font_level h = Some 4 \<and> set (detection_methods h) = {''font_cluster''} \<longrightarrow>
          h \<notin> set (filter_false_positives (detect_headings (analyze_elements pages)))"
    with m f(1) s have "h \<notin> set (filter_false_positives (detect_headings (analyze_elements [links_page])))"
      by blast
    with k show False by simp
  qed
  from 1 2 show ?thesis by (rule conjI)
qed

text \<open>
  C10, amended: a detected heading whose only contributing candidate is one candidate of
  the font clustering (its detection methods are the list with the single entry
  \<open>font_cluster\<close>) from the group of the fourth-largest size (font level 4) has confidence
  0.25 and is removed by \<open>filter_false_positives\<close>, which keeps a heading only if its
  confidence is greater than 0.3.
\<close>

theorem fourth_group_single_candidate:
  "\<forall>h \<in> set (detect_headings E).
      detection_methods h = [''font_cluster''] \<and> font_level h = Some 4 \<longrightarrow>
        confidence h = 0.25 \<and> h \<notin> set (filter_false_positives (detect_headings E))"
proof (intro ballI impI)
  fix h assume mem: "h \<in> set (detect_headings E)"
    and hyp: "detection_methods h = [''font_cluster''] \<and> font_level h = Some 4"
  let ?rs = "[detect_by_score E, detect_by_patterns E, detect_by_font_clustering E]"
  from mem obtain c x where c: "c \<in> set (combine_strategies ?rs)" and h: "h = candidate.extend c x"
    unfolding detect_headings_set by (auto split: if_splits)
  from combine_members [OF c] obtain c0 cs where
    f: "filter (\<lambda>x. heading_key x = heading_key c) (concat ?rs) = c0 # cs" and m: "c = merged c0 cs"
    by blast
  from hyp h m have "map detection_method (c0 # cs) = [''font_cluster'']" by simp
  then have cs: "cs = []" and d: "detection_method c0 = ''font_cluster''" by auto
  from f have "c0 \<in> set (filter (\<lambda>x. heading_key x = heading_key c) (concat ?rs))" by simp
  then have "c0 \<in> set (detect_by_score E) \<or> c0 \<in> set (detect_by_patterns E)
      \<or> c0 \<in> set (detect_by_font_clustering E)" by auto
  with d score_method [of c0 E] pattern_method [of c0 E]
  have "c0 \<in> set (detect_by_font_clustering E)" by auto
  then obtain i e where "c0 = cluster_heading i e" unfolding font_cluster_mem by blast
  moreover from hyp h m have "font_level c0 = Some 4" by simp
  ultimately have "confidence c0 = 0.25" by auto
  with h m cs have conf: "confidence h = 0.25" by simp
  then have "\<not> keep_heading h" by (intro not_kept) simp
  with conf show "confidence h = 0.25 \<and> h \<notin> set (filter_false_positives (detect_headings E))"
    by (simp add: filter_false_positives_def)
qed

theorem fourth_group_single_candidate_witness:
  "\<exists>h \<in> set (detect_headings (analyze_elements [contacts_page])).
      detection_methods h = [''font_cluster''] \<and> font_level h = Some 4
      \<and> h_text h = ''info@example.org''
      \<and> confidence h = 0.25
      \<and> h \<notin> set (filter_false_positives (detect_headings (analyze_elements [contacts_page])))"
proof -
  let ?E = "analyze_elements [contacts_page]"
  let ?rs = "[detect_by_score ?E, detect_by_patterns ?E, detect_by_font_clustering ?E]"
  let ?k = "(''info@example.org'', 1::int)"
  from map_eq_two [OF contacts_font] obtain c1 c2 where
    font: "detect_by_font_clustering ?E = [c1, c2]"
    and c1: "h_text c1 = ''info@example.org''" "h_page c1 = 1"
      "font_level c1 = Some 4" "detection_method c1 = ''font_cluster''"
    and c2: "h_text c2 = ''help@example.org''"
    by auto
  have "filter (\<lambda>x. heading_key x = ?k) (concat ?rs) = [c1]"
    using contacts_score by (simp add: contacts_patterns font heading_key_def c1 c2)
  then have m: "merged c1 [] \<in> set (combine_strategies ?rs)" by (rule combine_merged_mem)
  have ne: "?E \<noteq> []" unfolding contacts_elements by (simp add: contacts_page_def)
  define h where "h = candidate.extend (merged c1 [])
      \<lparr> h_level = determine_heading_level (merged c1 []) (combine_strategies ?rs) \<rparr>"
  from m ne have mem: "h \<in> set (detect_headings ?E)"
    unfolding detect_headings_set h_def by auto
  have f: "detection_methods h = [''font_cluster''] \<and> font_level h = Some 4"
    and t: "h_text h = ''info@example.org''"
    by (simp_all add: h_def c1)
  from fourth_group_single_candidate [of ?E, rule_format, OF mem f] mem f t
  show ?thesis by blast
qed

end
